theory Spec2Isabelle
  imports Main "HOL-Library.AList" "HOL-Library.Multiset"
begin

section \<open>Data model of \<^verbatim>\<open>check_cisco_stack.py\<close>\<close>

text \<open>
  Exit codes (lines 84-87). Python integers are unbounded, hence \<open>int\<close>.
\<close>

definition OK :: int where "OK = 0"
definition WARNING :: int where "WARNING = 1"
definition CRITICAL :: int where "CRITICAL = 2"
definition UNKNOWN :: int where "UNKNOWN = 3"

definition program_name :: string where
  "program_name = ''Cisco Stack''"

text \<open>
  Everything that ends a run other than a normal return: \<open>sys.exit(n)\<close> raises
  \<open>SystemExit\<close>, a missing dictionary key raises \<open>KeyError\<close>, and the SNMP library
  raises its own errors on a transport failure. None of them is caught anywhere in the
  program.
\<close>

datatype exn = SystemExit int | KeyError string | EasySNMPError string

text \<open>
  A stack member is a Python dict from field names to strings (the values that
  easysnmp returns are strings). The member table is a dict from the index to the member;
  Python dicts iterate in insertion order, so it is an association list, written with
  \<open>AList.update\<close> (replace in place, or append).
\<close>

type_synonym member = "string \<rightharpoonup> string"
type_synonym member_table = "(string \<times> member) list"

definition getitem :: "member \<Rightarrow> string \<Rightarrow> exn + string" where
  \<comment> \<open>\<open>member[key]\<close>\<close>
  "getitem m k = (case m k of None \<Rightarrow> Inl (KeyError k) | Some v \<Rightarrow> Inr v)"

section \<open>Lookup tables\<close>

definition exit_status_table :: "(int \<times> string) list" where
  "exit_status_table = [(0, ''OK''), (1, ''WARNING''), (2, ''CRITICAL''), (3, ''UNKNOWN'')]"

definition exit_status :: "int \<Rightarrow> string" where
  \<comment> \<open>lines 90-96: \<open>{...}.get(x, 'UNKNOWN')\<close>\<close>
  "exit_status x = (case map_of exit_status_table x of Some s \<Rightarrow> s | None \<Rightarrow> ''UNKNOWN'')"

definition stack_state_table :: "(string \<times> string) list" where
  "stack_state_table =
    [(''1'', ''waiting''),
     (''2'', ''progressing''),
     (''3'', ''added''),
     (''4'', ''ready''),
     (''5'', ''sdmMismatch''),
     (''6'', ''verMismatch''),
     (''7'', ''featureMismatch''),
     (''8'', ''newMasterInit''),
     (''9'', ''provisioned''),
     (''10'', ''invalid''),
     (''11'', ''removed'')]"

definition stack_state :: "string \<Rightarrow> string" where
  \<comment> \<open>lines 321-334: the keys of the table are strings\<close>
  "stack_state x = (case map_of stack_state_table x of Some s \<Rightarrow> s | None \<Rightarrow> ''UNKNOWN'')"

section \<open>The evaluator\<close>

text \<open>
  The loop of \<open>evaluate_results\<close> (lines 373-378), over the items of the table in
  iteration order. The state of the loop is the list of message fragments and the result.
  Each iteration reads \<open>member['number']\<close> and \<open>member['status']\<close> (line 374), then
  \<open>member['status_num']\<close> (line 376); a missing key raises.
\<close>

fun evaluate_members :: "member_table \<Rightarrow> string list \<times> int \<Rightarrow> exn + (string list \<times> int)" where
  "evaluate_members [] (message, result) = Inr (message, result)"
| "evaluate_members ((i, member) # rest) (message, result) =
     (case getitem member ''number'' of Inl e \<Rightarrow> Inl e | Inr number \<Rightarrow>
      case getitem member ''status'' of Inl e \<Rightarrow> Inl e | Inr status \<Rightarrow>
      case getitem member ''status_num'' of Inl e \<Rightarrow> Inl e | Inr status_num \<Rightarrow>
        evaluate_members rest
          (message @ [number @ '': '' @ status @ '', ''],
           if status_num \<noteq> ''4'' then CRITICAL else result))"

definition evaluate_results :: "member_table \<Rightarrow> string \<Rightarrow> exn + (int \<times> string)" where
  \<comment> \<open>lines 369-387\<close>
  "evaluate_results stack ring =
     (case evaluate_members stack ([''Members: ''], OK) of
        Inl e \<Rightarrow> Inl e
      | Inr (message, result) \<Rightarrow>
          if ring = ''1''
          then Inr (result, concat (message @ [''Stack Ring is redundant'']))
          else Inr (if result = OK then WARNING else result,
                    concat (message @ [''Stack Ring is non-redundant''])))"

section \<open>Effects: output, SNMP requests, exits\<close>

text \<open>
  The SNMP library is a black box. A walk returns a list of variables, a GET returns a
  variable or nothing, and either may raise instead. A variable carries its OID and its
  value, both strings.
\<close>

record snmp_variable =
  oid :: string
  snmp_value :: string

datatype 'a snmp_reply = Reply 'a | Fault string

record network =
  bulkwalk :: "string \<Rightarrow> string \<Rightarrow> string \<Rightarrow> snmp_variable list snmp_reply"
  get :: "string \<Rightarrow> string \<Rightarrow> string \<Rightarrow> snmp_variable option snmp_reply"

text \<open>
  What a run does that can be seen from outside, in order: lines printed on standard
  output, what argparse itself prints (its help, or its usage with an error message),
  the SNMP requests sent (host, community, OID), and the call of the evaluator from
  \<open>main\<close> (so that a run that never reaches the evaluator can be told apart).
  Debug logging is left out.
\<close>

datatype event =
    Stdout string
  | Argparse_help
  | Argparse_error string
  | Snmp_bulkwalk string string string
  | Snmp_get string string string
  | Call_evaluate_results

type_synonym 'a run = "event list \<times> (exn + 'a)"

definition ret :: "'a \<Rightarrow> 'a run" where
  "ret x = ([], Inr x)"

definition raise :: "exn \<Rightarrow> 'a run" where
  "raise e = ([], Inl e)"

definition emit :: "event \<Rightarrow> unit run" where
  "emit e = ([e], Inr ())"

definition lift :: "exn + 'a \<Rightarrow> 'a run" where
  "lift r = ([], r)"

definition and_then :: "'a run \<Rightarrow> ('a \<Rightarrow> 'b run) \<Rightarrow> 'b run" where
  \<comment> \<open>sequencing: an exception in the first part skips the second\<close>
  "and_then r f =
     (case r of
        (ev, Inl e) \<Rightarrow> (ev, Inl e)
      | (ev, Inr x) \<Rightarrow> (case f x of (ev', r') \<Rightarrow> (ev @ ev', r')))"

definition print :: "string \<Rightarrow> unit run" where
  "print s = emit (Stdout s)"

definition sys_exit :: "int \<Rightarrow> 'a run" where
  "sys_exit n = raise (SystemExit n)"

definition plugin_exit :: "int \<Rightarrow> string \<Rightarrow> 'a run" where
  \<comment> \<open>lines 223-227\<close>
  "plugin_exit exitcode message =
     and_then (print (program_name @ '' '' @ exit_status exitcode @ '' - '' @ message))
       (\<lambda>_. sys_exit exitcode)"

section \<open>Collection\<close>

text \<open>
  Each collector opens its own session and sends its requests through it; opening the
  session is part of the request here. \<open>s.rsplit('.')\<close> without a limit splits at every
  dot; the result is never empty, and \<open>pop()\<close> takes its last element.
\<close>

fun split_dot :: "string \<Rightarrow> string \<Rightarrow> string list" where
  "split_dot acc [] = [rev acc]"
| "split_dot acc (c # cs) =
     (if c = CHR ''.'' then rev acc # split_dot [] cs else split_dot (c # acc) cs)"

definition rsplit_dot :: "string \<Rightarrow> string list" where
  "rsplit_dot s = split_dot [] s"

definition oid_index :: "snmp_variable \<Rightarrow> string" where
  \<comment> \<open>\<open>member.oid.rsplit('.').pop()\<close>\<close>
  "oid_index member = last (rsplit_dot (oid member))"

definition stack_table_oid_name :: string where
  "stack_table_oid_name = ''.1.3.6.1.4.1.9.9.500.1.2.1.1.1''"

definition stack_status_oid_name :: string where
  "stack_status_oid_name = ''.1.3.6.1.4.1.9.9.500.1.2.1.1.6''"

definition ring_status_oid_name :: string where
  "ring_status_oid_name = ''.1.3.6.1.4.1.9.9.500.1.1.3.0''"

definition session_bulkwalk :: "network \<Rightarrow> string \<Rightarrow> string \<Rightarrow> string \<Rightarrow> snmp_variable list run" where
  "session_bulkwalk net remote_ip community name =
     and_then (emit (Snmp_bulkwalk remote_ip community name))
       (\<lambda>_. case bulkwalk net remote_ip community name of
               Reply vs \<Rightarrow> ret vs
             | Fault s \<Rightarrow> raise (EasySNMPError s))"

definition session_get :: "network \<Rightarrow> string \<Rightarrow> string \<Rightarrow> string \<Rightarrow> snmp_variable option run" where
  "session_get net remote_ip community name =
     and_then (emit (Snmp_get remote_ip community name))
       (\<lambda>_. case get net remote_ip community name of
               Reply v \<Rightarrow> ret v
             | Fault s \<Rightarrow> raise (EasySNMPError s))"

fun add_members :: "snmp_variable list \<Rightarrow> member_table \<Rightarrow> member_table" where
  \<comment> \<open>the loop of lines 262-265\<close>
  "add_members [] member_table = member_table"
| "add_members (member # rest) member_table =
     add_members rest
       (AList.update (oid_index member)
          [''number'' \<mapsto> snmp_value member, ''index'' \<mapsto> oid_index member]
          member_table)"

fun add_status :: "snmp_variable list \<Rightarrow> member_table \<Rightarrow> exn + member_table" where
  \<comment> \<open>the loop of lines 270-274; \<open>member_table[index]\<close> raises on a missing index\<close>
  "add_status [] member_table = Inr member_table"
| "add_status (member # rest) member_table =
     (case map_of member_table (oid_index member) of
        None \<Rightarrow> Inl (KeyError (oid_index member))
      | Some a \<Rightarrow>
          add_status rest
            (AList.update (oid_index member)
               (a(''status_num'' \<mapsto> snmp_value member,
                  ''status'' \<mapsto> stack_state (snmp_value member)))
               member_table))"

definition get_stack_info :: "string \<Rightarrow> string \<Rightarrow> network \<Rightarrow> member_table run" where
  \<comment> \<open>lines 255-276\<close>
  "get_stack_info remote_ip community net =
     and_then (session_bulkwalk net remote_ip community stack_table_oid_name)
       (\<lambda>stack_table_oid.
     and_then (if stack_table_oid = []
               then plugin_exit CRITICAL ''Unable to retrieve SNMP stack table''
               else ret ())
       (\<lambda>_.
     and_then (session_bulkwalk net remote_ip community stack_status_oid_name)
       (\<lambda>stack_status_oid.
     and_then (if stack_status_oid = []
               then plugin_exit CRITICAL ''Unable to retrieve SNMP stack status''
               else ret ())
       (\<lambda>_. lift (add_status stack_status_oid (add_members stack_table_oid []))))))"

definition get_ring_status :: "string \<Rightarrow> string \<Rightarrow> network \<Rightarrow> string run" where
  \<comment> \<open>lines 349-357\<close>
  "get_ring_status remote_ip community net =
     and_then (session_get net remote_ip community ring_status_oid_name)
       (\<lambda>ring_status_oid.
          case ring_status_oid of
            None \<Rightarrow> plugin_exit CRITICAL ''Unable to retrieve SNMP ring status''
          | Some v \<Rightarrow> ret (snmp_value v))"

section \<open>Command line\<close>

text \<open>
  The command line, as the sequence of the options that both parsers of the program know,
  each spelled in full: \<open>-h\<close>, \<open>-v\<close>, \<open>-H <ip>\<close>, \<open>-c <string>\<close>, \<open>-d\<close> (or their long
  forms). The \<open>part\<close> subcommand is not part of it.
\<close>

datatype cli_opt = Help | Version | Host string | Community string | Debug

record args =
  args_host :: string
  args_community :: string
  args_debug :: bool
  args_version :: bool

definition usage_text :: string where
  "usage_text =
     [CHR 0x0A] @
     [CHR 0x09] @ ''-h --help'' @ [CHR 0x09, CHR 0x09] @ ''- Prints out this help message'' @ [CHR 0x0A] @
     [CHR 0x09] @ ''-v --version'' @ [CHR 0x09, CHR 0x09] @ ''- Prints the version number'' @ [CHR 0x0A] @
     [CHR 0x09] @ ''-H --host <ip_address>'' @ [CHR 0x09] @ ''- IP address of the cisco stack'' @ [CHR 0x0A] @
     [CHR 0x09] @ ''-c --community <string>'' @ [CHR 0x09] @ ''- SNMP community string'' @ [CHR 0x0A] @
     [CHR 0x09] @ ''-d --debug'' @ [CHR 0x09, CHR 0x09] @ ''- Verbose mode for debugging'' @ [CHR 0x0A]"

definition usage :: "'a run" where
  \<comment> \<open>lines 104-112\<close>
  "usage = and_then (print usage_text) (\<lambda>_. sys_exit UNKNOWN)"

text \<open>
  \<open>parser.parse_args()\<close> for the parser declared in lines 120-129, as the standard
  library's argparse behaves (Python 3.11). It first reads every token as an option or as
  an argument. A token is read as an option when it begins with \<open>-\<close>, is longer than
  one character and either matches an option of the parser (exactly, before an \<open>=\<close>, as a
  short option with its value attached, or as an abbreviation of a long option) or is
  neither a negative number nor a text with a space. A token that abbreviates more than one
  long option is an error at once. The digits are the ASCII digits, and the token \<open>--\<close> is
  taken as an option here (it ends the options, which this view of the command line does
  not express).
\<close>

definition short_options :: "string list" where
  "short_options = [''-h'', ''-H'', ''-c'', ''-d'', ''-v'']"

definition long_options :: "string list" where
  "long_options = [''--help'', ''--host'', ''--community'', ''--debug'', ''--version'']"

definition option_prefix :: "string \<Rightarrow> string" where
  \<comment> \<open>the part before the first \<open>=\<close>\<close>
  "option_prefix v = takeWhile (\<lambda>c. c \<noteq> CHR ''='') v"

definition option_matches :: "string \<Rightarrow> string list" where
  \<comment> \<open>for a token that begins with \<open>-\<close> and has two characters or more\<close>
  "option_matches v =
     (if v ! 1 = CHR ''-''
      then filter (\<lambda>opt. take (length (option_prefix v)) opt = option_prefix v) long_options
      else filter (\<lambda>opt. opt = take 2 v) short_options)"

definition ascii_digit :: "char \<Rightarrow> bool" where
  "ascii_digit c \<longleftrightarrow> c \<in> set ''0123456789''"

definition strip_newline :: "string \<Rightarrow> string" where
  "strip_newline v = (if v \<noteq> [] \<and> last v = CHR 0x0A then butlast v else v)"

definition negative_number :: "string \<Rightarrow> bool" where
  \<comment> \<open>the pattern \<open>^-\d+$|^-\d*\.\d+$\<close>; \<open>$\<close> also matches before a final newline\<close>
  "negative_number v =
     (case strip_newline v of
        [] \<Rightarrow> False
      | c # r \<Rightarrow>
          c = CHR ''-'' \<and>
          (let ds = takeWhile ascii_digit r; rest = dropWhile ascii_digit r
           in (ds \<noteq> [] \<and> rest = []) \<or>
              (case rest of
                 [] \<Rightarrow> False
               | d # fs \<Rightarrow> d = CHR ''.'' \<and> fs \<noteq> [] \<and> list_all ascii_digit fs)))"

definition reads_as_option :: "string \<Rightarrow> bool" where
  "reads_as_option v \<longleftrightarrow>
     v \<noteq> [] \<and> hd v = CHR ''-'' \<and> length v \<noteq> 1 \<and>
     (option_matches v \<noteq> [] \<or> \<not> (negative_number v \<or> CHR '' '' \<in> set v))"

definition ambiguous_option :: "string \<Rightarrow> bool" where
  "ambiguous_option v \<longleftrightarrow>
     v \<noteq> [] \<and> hd v = CHR ''-'' \<and> length v \<noteq> 1 \<and> v \<noteq> ''--'' \<and>
     1 < length (option_matches v)"

fun comma_join :: "string list \<Rightarrow> string" where
  "comma_join [] = []"
| "comma_join [x] = x"
| "comma_join (x # y # ys) = x @ '', '' @ comma_join (y # ys)"

fun option_values :: "cli_opt list \<Rightarrow> string list" where
  "option_values [] = []"
| "option_values (Host a # rest) = a # option_values rest"
| "option_values (Community a # rest) = a # option_values rest"
| "option_values (x # rest) = option_values rest"

text \<open>
  Then the options are taken in order: \<open>-h\<close> prints the generated help and exits with
  status 0 at once; \<open>-H\<close> and \<open>-c\<close> take the next token when it was read as an argument,
  and are an error otherwise; at the end a required option that was not given is an error.
  Every error prints the generated usage with the error message and exits with status 2.
  Only \<open>--host\<close> is declared \<open>required=True\<close>.
\<close>

fun argparse_scan ::
  "cli_opt list \<Rightarrow> string option \<times> string \<times> bool \<times> bool
     \<Rightarrow> (string option \<times> string \<times> bool \<times> bool) run" where
  "argparse_scan [] ns = ret ns"
| "argparse_scan (Help # rest) ns = and_then (emit Argparse_help) (\<lambda>_. sys_exit 0)"
| "argparse_scan (Version # rest) (h, c, d, v) = argparse_scan rest (h, c, d, True)"
| "argparse_scan (Host a # rest) (h, c, d, v) =
     (if reads_as_option a
      then and_then (emit (Argparse_error ''argument -H/--host: expected one argument''))
             (\<lambda>_. sys_exit 2)
      else argparse_scan rest (Some a, c, d, v))"
| "argparse_scan (Community a # rest) (h, c, d, v) =
     (if reads_as_option a
      then and_then (emit (Argparse_error ''argument -c/--community: expected one argument''))
             (\<lambda>_. sys_exit 2)
      else argparse_scan rest (h, a, d, v))"
| "argparse_scan (Debug # rest) (h, c, d, v) = argparse_scan rest (h, c, True, v)"

definition parser_parse_args :: "cli_opt list \<Rightarrow> args run" where
  "parser_parse_args argv =
     (case List.find ambiguous_option (option_values argv) of
        Some x \<Rightarrow>
          and_then
            (emit (Argparse_error
               (''ambiguous option: '' @ x @ '' could match '' @ comma_join (option_matches x))))
            (\<lambda>_. sys_exit 2)
      | None \<Rightarrow>
          and_then (argparse_scan argv (None, ''Public'', False, False))
            (\<lambda>(h, c, d, v).
               case h of
                 None \<Rightarrow>
                   and_then
                     (emit (Argparse_error ''the following arguments are required: -H/--host''))
                     (\<lambda>_. sys_exit 2)
               | Some a \<Rightarrow>
                   ret \<lparr>args_host = a, args_community = c, args_debug = d, args_version = v\<rparr>))"

text \<open>
  \<open>parse_args()\<close> (lines 178-213), the older parser on getopt, which \<open>main\<close> runs
  after argparse. Its result is the dict \<open>options\<close> with the keys \<open>remote_ip\<close> and
  \<open>community\<close>, here a pair.
\<close>

fun parse_opts :: "cli_opt list \<Rightarrow> string option \<times> string \<Rightarrow> (string option \<times> string) run" where
  "parse_opts [] options = ret options"
| "parse_opts (Debug # rest) options = parse_opts rest options"
| "parse_opts (Version # rest) options =
     and_then (print (program_name @ '' plugin version 1.1'')) (\<lambda>_. sys_exit 0)"
| "parse_opts (Help # rest) options = usage"
| "parse_opts (Host a # rest) (remote_ip, community) = parse_opts rest (Some a, community)"
| "parse_opts (Community a # rest) (remote_ip, community) = parse_opts rest (remote_ip, a)"

definition parse_args :: "cli_opt list \<Rightarrow> (string option \<times> string) run" where
  "parse_args argv =
     and_then (parse_opts argv (None, ''Public''))
       (\<lambda>options. if fst options = None
                  then and_then (print ''Requires host to check'') (\<lambda>_. usage)
                  else ret options)"

section \<open>The program\<close>

text \<open>
  \<open>main\<close> (lines 436-452) without a subcommand: \<open>args.subparser_name\<close> is None, so
  the \<open>else\<close> branch collects.
\<close>

definition main :: "cli_opt list \<Rightarrow> network \<Rightarrow> unit run" where
  "main argv net =
     and_then (parser_parse_args argv) (\<lambda>args.
     and_then (parse_args argv) (\<lambda>options.
     and_then (get_stack_info (args_host args) (args_community args) net) (\<lambda>stack.
     and_then (get_ring_status (args_host args) (args_community args) net) (\<lambda>ring.
     and_then (emit Call_evaluate_results) (\<lambda>_.
     and_then (lift (evaluate_results stack ring)) (\<lambda>(result, message).
     plugin_exit result message))))))"

section \<open>Notions used to state the properties\<close>

text \<open>
  \<open>readable\<close>: the member has the three fields that the evaluator reads.
  \<open>stack_member\<close>: the member is a StackMember of the data model, that is, it has a
  number and a status code, and its status name is the one the table gives for the code
  (this is how \<open>get_stack_info\<close> fills it in). \<open>collected\<close>: the member has a number, and
  a status name exactly when it has a status code, then the one of the table; every member
  that \<open>get_stack_info\<close> returns is so. \<open>fragment\<close> is the text the evaluator
  adds for a member, and \<open>verdict\<close> the severity of a result, if there is one.
\<close>

definition readable :: "member \<Rightarrow> bool" where
  "readable m \<longleftrightarrow> m ''number'' \<noteq> None \<and> m ''status'' \<noteq> None \<and> m ''status_num'' \<noteq> None"

definition stack_member :: "member \<Rightarrow> bool" where
  "stack_member m \<longleftrightarrow>
     (case (m ''number'', m ''status_num'', m ''status'') of
        (Some n, Some c, Some s) \<Rightarrow> s = stack_state c
      | _ \<Rightarrow> False)"

definition collected :: "member \<Rightarrow> bool" where
  "collected m \<longleftrightarrow>
     m ''number'' \<noteq> None \<and>
     (case m ''status_num'' of
        None \<Rightarrow> m ''status'' = None
      | Some c \<Rightarrow> m ''status'' = Some (stack_state c))"

definition member_number :: "member \<Rightarrow> string" where
  "member_number m = (case m ''number'' of Some n \<Rightarrow> n | None \<Rightarrow> [])"

definition member_status :: "member \<Rightarrow> string" where
  "member_status m = (case m ''status'' of Some n \<Rightarrow> n | None \<Rightarrow> [])"

definition fragment :: "member \<Rightarrow> string" where
  "fragment m = member_number m @ '': '' @ member_status m @ '', ''"

definition verdict :: "exn + (int \<times> string) \<Rightarrow> int option" where
  "verdict r = (case r of Inl e \<Rightarrow> None | Inr (result, message) \<Rightarrow> Some result)"

text \<open>The members of the scenarios of the specification.\<close>

definition ready_member :: "string \<Rightarrow> string \<Rightarrow> member" where
  "ready_member i n = [''number'' \<mapsto> n, ''index'' \<mapsto> i, ''status_num'' \<mapsto> ''4'', ''status'' \<mapsto> ''ready'']"

definition provisioned_member :: "string \<Rightarrow> string \<Rightarrow> member" where
  "provisioned_member i n = [''number'' \<mapsto> n, ''index'' \<mapsto> i, ''status_num'' \<mapsto> ''9'', ''status'' \<mapsto> ''provisioned'']"

definition two_ready_members :: member_table where
  "two_ready_members = [(''1001'', ready_member ''1001'' ''1''), (''2001'', ready_member ''2001'' ''2'')]"

definition one_provisioned :: member_table where
  "one_provisioned =
     [(''1001'', ready_member ''1001'' ''1''), (''2001'', provisioned_member ''2001'' ''2'')]"

text \<open>
  An SNMP agent that answers the two walks and the GET with the given results, and the
  answers of a stack of two switches.
\<close>

definition stack_network ::
  "snmp_variable list \<Rightarrow> snmp_variable list \<Rightarrow> snmp_variable option \<Rightarrow> network" where
  "stack_network numbers states ring =
     \<lparr>bulkwalk = (\<lambda>h c name.
         if name = stack_table_oid_name then Reply numbers
         else if name = stack_status_oid_name then Reply states
         else Reply []),
      get = (\<lambda>h c name. if name = ring_status_oid_name then Reply ring else Reply None)\<rparr>"

definition two_numbers :: "snmp_variable list" where
  "two_numbers =
     [\<lparr>oid = ''.1.3.6.1.4.1.9.9.500.1.2.1.1.1.1001'', snmp_value = ''1''\<rparr>,
      \<lparr>oid = ''.1.3.6.1.4.1.9.9.500.1.2.1.1.1.2001'', snmp_value = ''2''\<rparr>]"

definition two_states :: "snmp_variable list" where
  "two_states =
     [\<lparr>oid = ''.1.3.6.1.4.1.9.9.500.1.2.1.1.6.1001'', snmp_value = ''4''\<rparr>,
      \<lparr>oid = ''.1.3.6.1.4.1.9.9.500.1.2.1.1.6.2001'', snmp_value = ''4''\<rparr>]"

definition one_number :: "snmp_variable list" where
  "one_number = [\<lparr>oid = ''.1.3.6.1.4.1.9.9.500.1.2.1.1.1.1001'', snmp_value = ''1''\<rparr>]"

definition one_state :: "snmp_variable list" where
  "one_state = [\<lparr>oid = ''.1.3.6.1.4.1.9.9.500.1.2.1.1.6.1001'', snmp_value = ''9''\<rparr>]"

definition partial_table :: member_table where
  "partial_table =
     [(''1001'', provisioned_member ''1001'' ''1''),
      (''2001'', [''number'' \<mapsto> ''2'', ''index'' \<mapsto> ''2001''])]"

definition redundant_ring :: "snmp_variable option" where
  "redundant_ring = Some \<lparr>oid = ''.1.3.6.1.4.1.9.9.500.1.1.3.0'', snmp_value = ''1''\<rparr>"

section \<open>Sequencing and the parts of a run\<close>

lemma and_then_Inl: "and_then (ev, Inl e) f = (ev, Inl e)"
  by (simp add: and_then_def)

lemma and_then_Inr: "and_then (ev, Inr x) f = (ev @ fst (f x), snd (f x))"
  by (simp add: and_then_def split: prod.splits)

lemma and_then_ret: "and_then (ret x) f = f x"
  by (simp add: and_then_def ret_def split: prod.splits)

lemma and_then_emit: "and_then (emit e) f = (e # fst (f ()), snd (f ()))"
  by (simp add: and_then_def emit_def split: prod.splits)

lemma plugin_exit_run:
  "plugin_exit exitcode message =
     ([Stdout (program_name @ '' '' @ exit_status exitcode @ '' - '' @ message)],
      Inl (SystemExit exitcode))"
  by (simp add: plugin_exit_def print_def and_then_emit sys_exit_def raise_def)

lemma session_bulkwalk_run:
  "session_bulkwalk net h c name =
     ([Snmp_bulkwalk h c name],
      case bulkwalk net h c name of Reply vs \<Rightarrow> Inr vs | Fault s \<Rightarrow> Inl (EasySNMPError s))"
  by (simp add: session_bulkwalk_def and_then_emit ret_def raise_def split: snmp_reply.splits)

lemma session_get_run:
  "session_get net h c name =
     ([Snmp_get h c name],
      case get net h c name of Reply v \<Rightarrow> Inr v | Fault s \<Rightarrow> Inl (EasySNMPError s))"
  by (simp add: session_get_def and_then_emit ret_def raise_def split: snmp_reply.splits)

lemmas run_simps =
  session_bulkwalk_run session_get_run and_then_Inl and_then_Inr plugin_exit_run
  ret_def raise_def lift_def

lemma split_dot_nonempty: "split_dot acc s \<noteq> []"
  by (induction s arbitrary: acc) auto

lemma rsplit_dot_nonempty: "rsplit_dot s \<noteq> []"
  by (simp add: rsplit_dot_def split_dot_nonempty)

lemma argparse_scan_quiet: "argparse_scan argv ns = (ev, Inr r) \<Longrightarrow> ev = []"
  by (induction argv ns rule: argparse_scan.induct)
     (auto simp: ret_def and_then_emit sys_exit_def raise_def split: if_splits)

lemma parser_parse_args_quiet: "parser_parse_args argv = (ev, Inr a) \<Longrightarrow> ev = []"
  by (cases "argparse_scan argv (None, ''Public'', False, False)")
     (auto simp: parser_parse_args_def and_then_def ret_def emit_def sys_exit_def raise_def
      split: sum.splits prod.splits option.splits dest: argparse_scan_quiet)

lemma host_is_argument: "\<not> reads_as_option ''10.0.0.1''" "\<not> ambiguous_option ''10.0.0.1''"
  by (simp_all add: reads_as_option_def ambiguous_option_def)

lemma parse_opts_quiet: "parse_opts argv opts = (ev, Inr r) \<Longrightarrow> ev = []"
  by (induction argv opts rule: parse_opts.induct)
     (auto simp: ret_def and_then_def print_def emit_def usage_def sys_exit_def raise_def)

lemma parse_args_quiet: "parse_args argv = (ev, Inr r) \<Longrightarrow> ev = []"
  by (cases "parse_opts argv (None, ''Public'')")
     (auto simp: parse_args_def and_then_def ret_def print_def emit_def usage_def sys_exit_def raise_def
      split: sum.splits prod.splits if_splits dest: parse_opts_quiet)

lemma main_after_parsing:
  assumes "parser_parse_args argv = (ev1, Inr a)" and "parse_args argv = (ev2, Inr options)"
  shows "main argv net =
     and_then (get_stack_info (args_host a) (args_community a) net) (\<lambda>stack.
     and_then (get_ring_status (args_host a) (args_community a) net) (\<lambda>ring.
     and_then (emit Call_evaluate_results) (\<lambda>_.
     and_then (lift (evaluate_results stack ring)) (\<lambda>(result, message).
     plugin_exit result message))))"
proof -
  from assms have "ev1 = []" "ev2 = []"
    by (auto dest: parser_parse_args_quiet parse_args_quiet)
  with assms show ?thesis
    by (simp add: main_def and_then_Inr)
qed

lemma parse_host:
  "parser_parse_args [Host ''10.0.0.1''] =
     ([], Inr \<lparr>args_host = ''10.0.0.1'', args_community = ''Public'', args_debug = False,
               args_version = False\<rparr>)"
  "parse_args [Host ''10.0.0.1''] = ([], Inr (Some ''10.0.0.1'', ''Public''))"
  by (simp_all add: parser_parse_args_def parse_args_def run_simps host_is_argument)

lemma get_stack_info_no_table:
  "bulkwalk net h c stack_table_oid_name = Reply [] \<Longrightarrow>
   get_stack_info h c net =
     ([Snmp_bulkwalk h c stack_table_oid_name,
       Stdout ''Cisco Stack CRITICAL - Unable to retrieve SNMP stack table''],
      Inl (SystemExit 2))"
  by (simp add: get_stack_info_def run_simps exit_status_def exit_status_table_def program_name_def CRITICAL_def)

lemma get_stack_info_no_status:
  "bulkwalk net h c stack_table_oid_name = Reply (v # vs) \<Longrightarrow>
   bulkwalk net h c stack_status_oid_name = Reply [] \<Longrightarrow>
   get_stack_info h c net =
     ([Snmp_bulkwalk h c stack_table_oid_name, Snmp_bulkwalk h c stack_status_oid_name,
       Stdout ''Cisco Stack CRITICAL - Unable to retrieve SNMP stack status''],
      Inl (SystemExit 2))"
  by (simp add: get_stack_info_def run_simps exit_status_def exit_status_table_def program_name_def CRITICAL_def)

lemma get_stack_info_returns:
  "get_stack_info h c net = (ev, Inr stack) \<Longrightarrow>
   ev = [Snmp_bulkwalk h c stack_table_oid_name, Snmp_bulkwalk h c stack_status_oid_name]"
  by (auto simp: get_stack_info_def run_simps split: snmp_reply.splits if_splits)

lemma get_ring_status_no_ring:
  "get net h c ring_status_oid_name = Reply None \<Longrightarrow>
   get_ring_status h c net =
     ([Snmp_get h c ring_status_oid_name,
       Stdout ''Cisco Stack CRITICAL - Unable to retrieve SNMP ring status''],
      Inl (SystemExit 2))"
  by (simp add: get_ring_status_def run_simps exit_status_def exit_status_table_def program_name_def CRITICAL_def)

section \<open>The scenarios, computed\<close>

lemma option_as_host_refused:
  "main [Host ''-x''] net =
     ([Argparse_error ''argument -H/--host: expected one argument''], Inl (SystemExit 2))"
  "main [Help, Host ''--h''] net =
     ([Argparse_error ''ambiguous option: --h could match --help, --host''], Inl (SystemExit 2))"
  "parser_parse_args [Host ''-1''] =
     ([], Inr \<lparr>args_host = ''-1'', args_community = ''Public'', args_debug = False,
               args_version = False\<rparr>)"
  by (simp_all add: main_def parser_parse_args_def reads_as_option_def ambiguous_option_def
      option_matches_def option_prefix_def short_options_def long_options_def
      negative_number_def strip_newline_def ascii_digit_def and_then_emit sys_exit_def run_simps)

lemma oid_names_differ:
  "stack_status_oid_name \<noteq> stack_table_oid_name"
  by (simp add: stack_status_oid_name_def stack_table_oid_name_def)

lemma bulkwalk_stack_network:
  "bulkwalk (stack_network numbers states ring) h c stack_table_oid_name = Reply numbers"
  "bulkwalk (stack_network numbers states ring) h c stack_status_oid_name = Reply states"
  "get (stack_network numbers states ring) h c ring_status_oid_name = Reply ring"
  by (simp_all add: stack_network_def oid_names_differ)

lemma oid_index_two:
  "map oid_index two_numbers = [''1001'', ''2001'']"
  "map oid_index two_states = [''1001'', ''2001'']"
  by (simp_all add: two_numbers_def two_states_def oid_index_def rsplit_dot_def)

lemma collect_two:
  "add_status two_states (add_members two_numbers []) = Inr two_ready_members"
  using oid_index_two
  by (simp add: two_numbers_def two_states_def two_ready_members_def ready_member_def
      stack_state_def stack_state_table_def)

lemma get_stack_info_two:
  "get_stack_info h c (stack_network two_numbers two_states ring) =
     ([Snmp_bulkwalk h c stack_table_oid_name, Snmp_bulkwalk h c stack_status_oid_name],
      Inr two_ready_members)"
  by (simp add: get_stack_info_def run_simps bulkwalk_stack_network collect_two)
     (simp add: two_numbers_def two_states_def)

lemma end_to_end_ok:
  "main [Host ''10.0.0.1''] (stack_network two_numbers two_states redundant_ring) =
     ([Snmp_bulkwalk ''10.0.0.1'' ''Public'' stack_table_oid_name,
       Snmp_bulkwalk ''10.0.0.1'' ''Public'' stack_status_oid_name,
       Snmp_get ''10.0.0.1'' ''Public'' ring_status_oid_name,
       Call_evaluate_results,
       Stdout ''Cisco Stack OK - Members: 1: ready, 2: ready, Stack Ring is redundant''],
      Inl (SystemExit 0))"
proof -
  have r: "get_ring_status h c (stack_network two_numbers two_states redundant_ring) =
     ([Snmp_get h c ring_status_oid_name], Inr ''1'')" for h c
    by (simp add: get_ring_status_def run_simps bulkwalk_stack_network redundant_ring_def)
  have e: "evaluate_results two_ready_members ''1'' =
     Inr (OK, ''Members: 1: ready, 2: ready, Stack Ring is redundant'')"
    by (simp add: evaluate_results_def two_ready_members_def ready_member_def getitem_def)
  show ?thesis
    by (simp add: main_after_parsing [OF parse_host] get_stack_info_two r e and_then_emit
        run_simps OK_def exit_status_def exit_status_table_def program_name_def)
qed

section \<open>The evaluator on readable members\<close>

lemma stack_member_readable: "stack_member m \<Longrightarrow> readable m"
  by (auto simp: stack_member_def readable_def split: option.splits)

lemma evaluate_members_readable:
  "\<forall>m \<in> snd ` set stack. readable m \<Longrightarrow>
   evaluate_members stack (message, result) =
     Inr (message @ map (\<lambda>(i, m). fragment m) stack,
          if \<exists>m \<in> snd ` set stack. m ''status_num'' \<noteq> Some ''4'' then CRITICAL else result)"
proof (induction stack arbitrary: message result)
  case Nil
  then show ?case by simp
next
  case (Cons p rest)
  obtain i m where p: "p = (i, m)" by (cases p)
  from Cons.prems p obtain n s c where
    f: "m ''number'' = Some n" "m ''status'' = Some s" "m ''status_num'' = Some c"
    by (auto simp: readable_def)
  from Cons.prems have r: "\<forall>m \<in> snd ` set rest. readable m" by simp
  show ?case
    using f by (simp add: p getitem_def Cons.IH [OF r] fragment_def member_number_def member_status_def)
qed

lemma evaluate_members_unreadable:
  "\<not> (\<forall>m \<in> snd ` set stack. readable m) \<Longrightarrow>
   \<exists>e. evaluate_members stack (message, result) = Inl e"
proof (induction stack arbitrary: message result)
  case Nil
  then show ?case by simp
next
  case (Cons p rest)
  obtain i m where p: "p = (i, m)" by (cases p)
  show ?case
  proof (cases "readable m")
    case True
    with Cons.prems p have "\<not> (\<forall>m \<in> snd ` set rest. readable m)" by simp
    from Cons.IH [OF this] True show ?thesis
      by (auto simp: p getitem_def readable_def)
  next
    case False
    then show ?thesis
      by (auto simp: p getitem_def readable_def split: option.splits)
  qed
qed

lemma evaluate_results_readable:
  "\<forall>m \<in> snd ` set stack. readable m \<Longrightarrow>
   evaluate_results stack ring =
     Inr (if \<exists>m \<in> snd ` set stack. m ''status_num'' \<noteq> Some ''4'' then CRITICAL
          else if ring = ''1'' then OK else WARNING,
          ''Members: '' @ concat (map (\<lambda>(i, m). fragment m) stack) @
          (if ring = ''1'' then ''Stack Ring is redundant'' else ''Stack Ring is non-redundant''))"
  by (simp add: evaluate_results_def evaluate_members_readable OK_def WARNING_def CRITICAL_def)

lemma verdict_evaluate_results:
  "verdict (evaluate_results stack ring) =
     (if \<forall>m \<in> snd ` set stack. readable m
      then Some (if \<exists>m \<in> snd ` set stack. m ''status_num'' \<noteq> Some ''4'' then CRITICAL
                 else if ring = ''1'' then OK else WARNING)
      else None)"
proof (cases "\<forall>m \<in> snd ` set stack. readable m")
  case True
  then show ?thesis by (simp add: evaluate_results_readable verdict_def)
next
  case False
  from evaluate_members_unreadable [OF this]
  obtain e where "evaluate_members stack ([''Members: ''], OK) = Inl e" by blast
  with False show ?thesis by (simp add: evaluate_results_def verdict_def)
qed

lemma stack_state_4: "stack_state ''4'' = ''ready''"
  by (simp add: stack_state_def stack_state_table_def)

lemma fragment_ready:
  "stack_member m \<Longrightarrow> m ''status_num'' = Some ''4'' \<Longrightarrow> fragment m = member_number m @ '': ready, ''"
  by (auto simp: stack_member_def fragment_def member_status_def stack_state_4 split: option.splits)

lemma readable_not_ready_is_critical:
  assumes "\<forall>m \<in> snd ` set stack. readable m"
    and "\<exists>m \<in> snd ` set stack. m ''status_num'' \<noteq> Some ''4''"
  shows "\<exists>message. evaluate_results stack ring = Inr (CRITICAL, message)"
  using assms(2) by (simp add: evaluate_results_readable [OF assms(1)])

lemma one_provisioned_readable: "\<forall>m \<in> snd ` set one_provisioned. readable m"
  by (simp add: one_provisioned_def ready_member_def provisioned_member_def readable_def)

section \<open>What the collector returns\<close>

lemma collected_stack_member:
  "collected m \<Longrightarrow> m ''status_num'' \<noteq> None \<Longrightarrow> stack_member m"
  by (auto simp: collected_def stack_member_def split: option.splits)

lemma stack_member_collected: "stack_member m \<Longrightarrow> collected m"
  by (auto simp: collected_def stack_member_def split: option.splits)

lemma snd_set_update: "snd ` set (AList.update k v al) \<subseteq> insert v (snd ` set al)"
  by (induction al) auto

lemma map_of_snd_set: "map_of al k = Some v \<Longrightarrow> v \<in> snd ` set al"
  by (auto dest: map_of_SomeD intro: rev_image_eqI)

lemma add_members_collected:
  "\<forall>m \<in> snd ` set tbl. collected m \<Longrightarrow> \<forall>m \<in> snd ` set (add_members vs tbl). collected m"
proof (induction vs arbitrary: tbl)
  case Nil
  then show ?case by simp
next
  case (Cons v vs)
  have "collected [''number'' \<mapsto> snmp_value v, ''index'' \<mapsto> oid_index v]"
    by (simp add: collected_def)
  with Cons.prems snd_set_update
  have "\<forall>m \<in> snd ` set (AList.update (oid_index v)
          [''number'' \<mapsto> snmp_value v, ''index'' \<mapsto> oid_index v] tbl). collected m"
    by fastforce
  from Cons.IH [OF this] show ?case by simp
qed

lemma add_status_collected:
  "add_status vs tbl = Inr tbl' \<Longrightarrow> \<forall>m \<in> snd ` set tbl. collected m \<Longrightarrow>
   \<forall>m \<in> snd ` set tbl'. collected m"
proof (induction vs arbitrary: tbl)
  case Nil
  then show ?case by simp
next
  case (Cons v vs)
  from Cons.prems(1) obtain a where
    a: "map_of tbl (oid_index v) = Some a"
    and r: "add_status vs (AList.update (oid_index v)
               (a(''status_num'' \<mapsto> snmp_value v, ''status'' \<mapsto> stack_state (snmp_value v)))
               tbl) = Inr tbl'"
    by (auto split: option.splits)
  from a Cons.prems(2) have "collected a" by (auto dest: map_of_snd_set)
  then have "collected (a(''status_num'' \<mapsto> snmp_value v, ''status'' \<mapsto> stack_state (snmp_value v)))"
    by (simp add: collected_def)
  with Cons.prems(2) snd_set_update
  have "\<forall>m \<in> snd ` set (AList.update (oid_index v)
               (a(''status_num'' \<mapsto> snmp_value v, ''status'' \<mapsto> stack_state (snmp_value v)))
               tbl). collected m"
    by fastforce
  from Cons.IH [OF r this] show ?case .
qed

lemma get_stack_info_collected:
  assumes "get_stack_info h c net = (ev, Inr stack)"
  shows "\<forall>m \<in> snd ` set stack. collected m"
proof -
  from assms obtain numbers states where
    "add_status states (add_members numbers []) = Inr stack"
    by (auto simp: get_stack_info_def run_simps split: snmp_reply.splits if_splits)
  moreover have "\<forall>m \<in> snd ` set (add_members numbers []). collected m"
    by (rule add_members_collected) simp
  ultimately show ?thesis by (rule add_status_collected)
qed

lemma collected_table_stack_members:
  assumes "get_stack_info h c net = (ev, Inr stack)"
    and "\<forall>m \<in> snd ` set stack. m ''status_num'' = Some ''4''"
  shows "\<forall>m \<in> snd ` set stack. stack_member m \<and> m ''status_num'' = Some ''4''"
  using get_stack_info_collected [OF assms(1)] assms(2)
  by (auto intro: collected_stack_member)

section \<open>Properties of the program\<close>

text \<open>
  C4: for each of the codes 1 to 11 (as the strings the SNMP library delivers)
  \<open>stack_state\<close> returns the name of the fixed table, and for every other string,
  numeric or not, it returns the sentinel UNKNOWN; it has no failing branch.
\<close>

theorem stack_state_table_total:
  "stack_state ''1'' = ''waiting'' \<and>
   stack_state ''2'' = ''progressing'' \<and>
   stack_state ''3'' = ''added'' \<and>
   stack_state ''4'' = ''ready'' \<and>
   stack_state ''5'' = ''sdmMismatch'' \<and>
   stack_state ''6'' = ''verMismatch'' \<and>
   stack_state ''7'' = ''featureMismatch'' \<and>
   stack_state ''8'' = ''newMasterInit'' \<and>
   stack_state ''9'' = ''provisioned'' \<and>
   stack_state ''10'' = ''invalid'' \<and>
   stack_state ''11'' = ''removed'' \<and>
   (x \<notin> {''11'', ''10'', ''9'', ''8'', ''7'', ''6'', ''5'', ''4'', ''3'', ''2'', ''1''}
      \<longrightarrow> stack_state x = ''UNKNOWN'')"
  by (simp add: stack_state_def stack_state_table_def)

theorem stack_state_table_total_witness:
  "''4x'' \<notin> {''11'', ''10'', ''9'', ''8'', ''7'', ''6'', ''5'', ''4'', ''3'', ''2'', ''1''}
   \<and> stack_state ''4x'' = ''UNKNOWN'' \<and> stack_state ''4'' = ''ready''"
  using stack_state_table_total [of "''4x''"] by simp

text \<open>
  C1: on a non-empty member table in which every member is a stack member with status
  code "4", and with the ring value "1", \<open>evaluate_results\<close> returns OK and the message
  "Members: ", then "<number>: ready, " for each member in iteration order, then
  "Stack Ring is redundant"; \<open>plugin_exit\<close> reports it as the line
  "Cisco Stack OK - <message>" and exits with status 0.
\<close>

theorem all_ready_redundant_ok:
  assumes "stack \<noteq> []"
    and "\<forall>m \<in> snd ` set stack. stack_member m \<and> m ''status_num'' = Some ''4''"
  shows "evaluate_results stack ''1'' =
           Inr (OK, ''Members: '' @ concat (map (\<lambda>(i, m). member_number m @ '': ready, '') stack)
                    @ ''Stack Ring is redundant'')
         \<and> (\<exists>message. evaluate_results stack ''1'' = Inr (OK, message) \<and>
               (plugin_exit OK message :: unit run) =
                 ([Stdout (''Cisco Stack OK - '' @ message)], Inl (SystemExit 0)))"
proof -
  from assms(2) have r: "\<forall>m \<in> snd ` set stack. readable m"
    by (auto dest: stack_member_readable)
  have eq: "concat (map (\<lambda>(i, m). fragment m) stack) =
            concat (map (\<lambda>(i, m). member_number m @ '': ready, '') stack)"
    using assms(2) by (intro arg_cong [where f = concat]) (auto simp: fragment_ready)
  from assms(2) have e: "evaluate_results stack ''1'' =
           Inr (OK, ''Members: '' @ concat (map (\<lambda>(i, m). member_number m @ '': ready, '') stack)
                    @ ''Stack Ring is redundant'')"
    by (simp add: evaluate_results_readable [OF r] eq)
  have "(plugin_exit OK message :: unit run) =
          ([Stdout (''Cisco Stack OK - '' @ message)], Inl (SystemExit 0))" for message
    by (simp add: plugin_exit_def and_then_def print_def emit_def sys_exit_def raise_def
        program_name_def exit_status_def exit_status_table_def OK_def)
  with e show ?thesis by simp
qed

theorem all_ready_redundant_ok_witness:
  "two_ready_members \<noteq> [] \<and>
   evaluate_results two_ready_members ''1'' =
     Inr (OK, ''Members: 1: ready, 2: ready, Stack Ring is redundant'') \<and>
   main [Host ''10.0.0.1''] (stack_network two_numbers two_states redundant_ring) =
     ([Snmp_bulkwalk ''10.0.0.1'' ''Public'' stack_table_oid_name,
       Snmp_bulkwalk ''10.0.0.1'' ''Public'' stack_status_oid_name,
       Snmp_get ''10.0.0.1'' ''Public'' ring_status_oid_name,
       Call_evaluate_results,
       Stdout ''Cisco Stack OK - Members: 1: ready, 2: ready, Stack Ring is redundant''],
      Inl (SystemExit 0))"
proof -
  have h1: "two_ready_members \<noteq> []" by (simp add: two_ready_members_def)
  have h2: "\<forall>m \<in> snd ` set two_ready_members. stack_member m \<and> m ''status_num'' = Some ''4''"
    by (simp add: two_ready_members_def ready_member_def stack_member_def stack_state_4)
  have "evaluate_results two_ready_members ''1'' =
          Inr (OK, ''Members: '' @
                   concat (map (\<lambda>(i, m). member_number m @ '': ready, '') two_ready_members)
                   @ ''Stack Ring is redundant'')"
    using all_ready_redundant_ok [OF h1 h2] by (rule conjunct1)
  also have "concat (map (\<lambda>(i, m). member_number m @ '': ready, '') two_ready_members)
             = ''1: ready, 2: ready, ''"
    by (simp add: two_ready_members_def ready_member_def member_number_def)
  finally have "evaluate_results two_ready_members ''1'' =
     Inr (OK, ''Members: 1: ready, 2: ready, Stack Ring is redundant'')" by simp
  with h1 end_to_end_ok show ?thesis by blast
qed

text \<open>
  C2: what the code does when one member is not ready and another member has no entry in
  the walk of the states. The walk of the numbers returns the members 1001 and 2001, the
  walk of the states returns 1001 only, with the code "9": \<open>get_stack_info\<close> returns a
  table whose member 2001 has no status fields, and on that table \<open>evaluate_results\<close>
  raises \<open>KeyError('status')\<close> at line 374, for a redundant and for a non-redundant ring,
  although member 1001 has a status code other than "4"; \<open>main\<close> ends with that uncaught
  exception, having printed nothing, instead of reporting CRITICAL.
\<close>

theorem partial_member_raises_KeyError:
  "get_stack_info ''10.0.0.1'' ''Public'' (stack_network two_numbers one_state redundant_ring) =
     ([Snmp_bulkwalk ''10.0.0.1'' ''Public'' stack_table_oid_name,
       Snmp_bulkwalk ''10.0.0.1'' ''Public'' stack_status_oid_name],
      Inr partial_table)
   \<and> (\<exists>m \<in> snd ` set partial_table. m ''status_num'' = Some ''9'')
   \<and> evaluate_results partial_table ''1'' = Inl (KeyError ''status'')
   \<and> evaluate_results partial_table ''0'' = Inl (KeyError ''status'')
   \<and> main [Host ''10.0.0.1''] (stack_network two_numbers one_state redundant_ring) =
     ([Snmp_bulkwalk ''10.0.0.1'' ''Public'' stack_table_oid_name,
       Snmp_bulkwalk ''10.0.0.1'' ''Public'' stack_status_oid_name,
       Snmp_get ''10.0.0.1'' ''Public'' ring_status_oid_name,
       Call_evaluate_results],
      Inl (KeyError ''status''))"
proof -
  have a: "add_status one_state (add_members two_numbers []) = Inr partial_table"
    by (simp add: two_numbers_def one_state_def partial_table_def provisioned_member_def
        oid_index_def rsplit_dot_def stack_state_def stack_state_table_def)
  have g: "get_stack_info h c (stack_network two_numbers one_state redundant_ring) =
     ([Snmp_bulkwalk h c stack_table_oid_name, Snmp_bulkwalk h c stack_status_oid_name],
      Inr partial_table)" for h c
    by (simp add: get_stack_info_def run_simps bulkwalk_stack_network a)
       (simp add: two_numbers_def one_state_def)
  have r: "get_ring_status h c (stack_network two_numbers one_state redundant_ring) =
     ([Snmp_get h c ring_status_oid_name], Inr ''1'')" for h c
    by (simp add: get_ring_status_def run_simps bulkwalk_stack_network redundant_ring_def)
  have e: "evaluate_results partial_table ring = Inl (KeyError ''status'')" for ring
    by (simp add: evaluate_results_def partial_table_def provisioned_member_def getitem_def)
  have s: "\<exists>m \<in> snd ` set partial_table. m ''status_num'' = Some ''9''"
    by (simp add: partial_table_def provisioned_member_def)
  have m: "main [Host ''10.0.0.1''] (stack_network two_numbers one_state redundant_ring) =
     ([Snmp_bulkwalk ''10.0.0.1'' ''Public'' stack_table_oid_name,
       Snmp_bulkwalk ''10.0.0.1'' ''Public'' stack_status_oid_name,
       Snmp_get ''10.0.0.1'' ''Public'' ring_status_oid_name,
       Call_evaluate_results],
      Inl (KeyError ''status''))"
    by (simp add: main_after_parsing [OF parse_host] g r e and_then_emit run_simps)
  from g e s m show ?thesis by blast
qed

text \<open>
  C3: on a non-empty member table in which every member has status code "4", and with a
  ring value other than "1", \<open>evaluate_results\<close> returns WARNING (which is not
  CRITICAL), and the message ends with "Stack Ring is non-redundant".
\<close>

theorem ready_non_redundant_is_warning:
  assumes "stack \<noteq> []"
    and "\<forall>m \<in> snd ` set stack. readable m \<and> m ''status_num'' = Some ''4''"
    and "ring \<noteq> ''1''"
  shows "\<exists>body. evaluate_results stack ring = Inr (WARNING, body @ ''Stack Ring is non-redundant'')
         \<and> WARNING \<noteq> CRITICAL"
proof -
  from assms(2) have r: "\<forall>m \<in> snd ` set stack. readable m" by simp
  from assms(2,3) have "evaluate_results stack ring =
     Inr (WARNING, (''Members: '' @ concat (map (\<lambda>(i, m). fragment m) stack)) @ ''Stack Ring is non-redundant'')"
    by (simp add: evaluate_results_readable [OF r])
  then show ?thesis by (auto simp: WARNING_def CRITICAL_def)
qed

theorem ready_non_redundant_is_warning_witness:
  "two_ready_members \<noteq> [] \<and>
   ''0'' \<noteq> ''1'' \<and>
   (\<exists>body. evaluate_results two_ready_members ''0'' =
              Inr (WARNING, body @ ''Stack Ring is non-redundant''))"
proof -
  have h1: "two_ready_members \<noteq> []" by (simp add: two_ready_members_def)
  have h2: "\<forall>m \<in> snd ` set two_ready_members. readable m \<and> m ''status_num'' = Some ''4''"
    by (simp add: two_ready_members_def ready_member_def readable_def)
  have h3: "''0'' \<noteq> ''1''" by simp
  from ready_non_redundant_is_warning [OF h1 h2 h3] h1 h3
  show ?thesis by blast
qed

text \<open>
  C5: once the command line is accepted, a run in which the walk of the member numbers
  returns nothing, or the walk of the member states returns nothing, or the GET of the
  ring status returns nothing (after a collection of the stack that returned), prints
  "Cisco Stack CRITICAL - Unable to retrieve SNMP stack table" (respectively "stack
  status", "ring status") and exits with status 2; the run ends there, without a call of
  the evaluator.
\<close>

theorem empty_collection_exits_critical:
  assumes "parser_parse_args argv = (ev1, Inr a)" and "parse_args argv = (ev2, Inr options)"
  shows
    "(bulkwalk net (args_host a) (args_community a) stack_table_oid_name = Reply [] \<longrightarrow>
        main argv net =
          ([Snmp_bulkwalk (args_host a) (args_community a) stack_table_oid_name,
            Stdout ''Cisco Stack CRITICAL - Unable to retrieve SNMP stack table''],
           Inl (SystemExit 2))
        \<and> Call_evaluate_results \<notin> set (fst (main argv net))) \<and>
     (bulkwalk net (args_host a) (args_community a) stack_table_oid_name = Reply (v # vs) \<and>
      bulkwalk net (args_host a) (args_community a) stack_status_oid_name = Reply [] \<longrightarrow>
        main argv net =
          ([Snmp_bulkwalk (args_host a) (args_community a) stack_table_oid_name,
            Snmp_bulkwalk (args_host a) (args_community a) stack_status_oid_name,
            Stdout ''Cisco Stack CRITICAL - Unable to retrieve SNMP stack status''],
           Inl (SystemExit 2))
        \<and> Call_evaluate_results \<notin> set (fst (main argv net))) \<and>
     (get_stack_info (args_host a) (args_community a) net = (ev3, Inr stack) \<and>
      get net (args_host a) (args_community a) ring_status_oid_name = Reply None \<longrightarrow>
        main argv net =
          ([Snmp_bulkwalk (args_host a) (args_community a) stack_table_oid_name,
            Snmp_bulkwalk (args_host a) (args_community a) stack_status_oid_name,
            Snmp_get (args_host a) (args_community a) ring_status_oid_name,
            Stdout ''Cisco Stack CRITICAL - Unable to retrieve SNMP ring status''],
           Inl (SystemExit 2))
        \<and> Call_evaluate_results \<notin> set (fst (main argv net)))"
proof -
  note m = main_after_parsing [OF assms]
  have table: "main argv net =
          ([Snmp_bulkwalk (args_host a) (args_community a) stack_table_oid_name,
            Stdout ''Cisco Stack CRITICAL - Unable to retrieve SNMP stack table''],
           Inl (SystemExit 2))"
    if "bulkwalk net (args_host a) (args_community a) stack_table_oid_name = Reply []"
    using that by (simp add: m get_stack_info_no_table and_then_Inl)
  have status: "main argv net =
          ([Snmp_bulkwalk (args_host a) (args_community a) stack_table_oid_name,
            Snmp_bulkwalk (args_host a) (args_community a) stack_status_oid_name,
            Stdout ''Cisco Stack CRITICAL - Unable to retrieve SNMP stack status''],
           Inl (SystemExit 2))"
    if "bulkwalk net (args_host a) (args_community a) stack_table_oid_name = Reply (v # vs)"
      and "bulkwalk net (args_host a) (args_community a) stack_status_oid_name = Reply []"
    using that by (simp add: m get_stack_info_no_status and_then_Inl)
  have ring: "main argv net =
          ([Snmp_bulkwalk (args_host a) (args_community a) stack_table_oid_name,
            Snmp_bulkwalk (args_host a) (args_community a) stack_status_oid_name,
            Snmp_get (args_host a) (args_community a) ring_status_oid_name,
            Stdout ''Cisco Stack CRITICAL - Unable to retrieve SNMP ring status''],
           Inl (SystemExit 2))"
    if g: "get_stack_info (args_host a) (args_community a) net = (ev3, Inr stack)"
      and r: "get net (args_host a) (args_community a) ring_status_oid_name = Reply None"
  proof -
    from g have "ev3 = [Snmp_bulkwalk (args_host a) (args_community a) stack_table_oid_name,
            Snmp_bulkwalk (args_host a) (args_community a) stack_status_oid_name]"
      by (rule get_stack_info_returns)
    with g r show ?thesis
      by (simp add: m get_ring_status_no_ring and_then_Inl and_then_Inr)
  qed
  show ?thesis
  proof (intro conjI impI)
    assume h: "bulkwalk net (args_host a) (args_community a) stack_table_oid_name = Reply []"
    show "main argv net =
          ([Snmp_bulkwalk (args_host a) (args_community a) stack_table_oid_name,
            Stdout ''Cisco Stack CRITICAL - Unable to retrieve SNMP stack table''],
           Inl (SystemExit 2))"
      by (rule table [OF h])
    show "Call_evaluate_results \<notin> set (fst (main argv net))"
      by (simp add: table [OF h])
  next
    assume h: "bulkwalk net (args_host a) (args_community a) stack_table_oid_name = Reply (v # vs) \<and>
      bulkwalk net (args_host a) (args_community a) stack_status_oid_name = Reply []"
    then have e: "main argv net =
          ([Snmp_bulkwalk (args_host a) (args_community a) stack_table_oid_name,
            Snmp_bulkwalk (args_host a) (args_community a) stack_status_oid_name,
            Stdout ''Cisco Stack CRITICAL - Unable to retrieve SNMP stack status''],
           Inl (SystemExit 2))"
      by (intro status) simp_all
    show "main argv net =
          ([Snmp_bulkwalk (args_host a) (args_community a) stack_table_oid_name,
            Snmp_bulkwalk (args_host a) (args_community a) stack_status_oid_name,
            Stdout ''Cisco Stack CRITICAL - Unable to retrieve SNMP stack status''],
           Inl (SystemExit 2))"
      by (rule e)
    show "Call_evaluate_results \<notin> set (fst (main argv net))"
      by (simp add: e)
  next
    assume h: "get_stack_info (args_host a) (args_community a) net = (ev3, Inr stack) \<and>
      get net (args_host a) (args_community a) ring_status_oid_name = Reply None"
    then have e: "main argv net =
          ([Snmp_bulkwalk (args_host a) (args_community a) stack_table_oid_name,
            Snmp_bulkwalk (args_host a) (args_community a) stack_status_oid_name,
            Snmp_get (args_host a) (args_community a) ring_status_oid_name,
            Stdout ''Cisco Stack CRITICAL - Unable to retrieve SNMP ring status''],
           Inl (SystemExit 2))"
      by (intro ring) simp_all
    show "main argv net =
          ([Snmp_bulkwalk (args_host a) (args_community a) stack_table_oid_name,
            Snmp_bulkwalk (args_host a) (args_community a) stack_status_oid_name,
            Snmp_get (args_host a) (args_community a) ring_status_oid_name,
            Stdout ''Cisco Stack CRITICAL - Unable to retrieve SNMP ring status''],
           Inl (SystemExit 2))"
      by (rule e)
    show "Call_evaluate_results \<notin> set (fst (main argv net))"
      by (simp add: e)
  qed
qed

theorem empty_collection_exits_critical_witness:
  "main [Host ''10.0.0.1''] (stack_network [] [] None) =
     ([Snmp_bulkwalk ''10.0.0.1'' ''Public'' stack_table_oid_name,
       Stdout ''Cisco Stack CRITICAL - Unable to retrieve SNMP stack table''],
      Inl (SystemExit 2)) \<and>
   main [Host ''10.0.0.1''] (stack_network two_numbers [] None) =
     ([Snmp_bulkwalk ''10.0.0.1'' ''Public'' stack_table_oid_name,
       Snmp_bulkwalk ''10.0.0.1'' ''Public'' stack_status_oid_name,
       Stdout ''Cisco Stack CRITICAL - Unable to retrieve SNMP stack status''],
      Inl (SystemExit 2)) \<and>
   main [Host ''10.0.0.1''] (stack_network two_numbers two_states None) =
     ([Snmp_bulkwalk ''10.0.0.1'' ''Public'' stack_table_oid_name,
       Snmp_bulkwalk ''10.0.0.1'' ''Public'' stack_status_oid_name,
       Snmp_get ''10.0.0.1'' ''Public'' ring_status_oid_name,
       Stdout ''Cisco Stack CRITICAL - Unable to retrieve SNMP ring status''],
      Inl (SystemExit 2))"
proof -
  note t = empty_collection_exits_critical [OF parse_host]
  have 1: "bulkwalk (stack_network [] [] None) ''10.0.0.1'' ''Public'' stack_table_oid_name = Reply []"
    by (simp add: bulkwalk_stack_network)
  have 2: "bulkwalk (stack_network two_numbers [] None) ''10.0.0.1'' ''Public'' stack_table_oid_name
             = Reply (hd two_numbers # tl two_numbers) \<and>
           bulkwalk (stack_network two_numbers [] None) ''10.0.0.1'' ''Public'' stack_status_oid_name
             = Reply []"
    by (simp add: bulkwalk_stack_network two_numbers_def)
  have 3: "get_stack_info ''10.0.0.1'' ''Public'' (stack_network two_numbers two_states None) =
             ([Snmp_bulkwalk ''10.0.0.1'' ''Public'' stack_table_oid_name,
               Snmp_bulkwalk ''10.0.0.1'' ''Public'' stack_status_oid_name], Inr two_ready_members) \<and>
           get (stack_network two_numbers two_states None) ''10.0.0.1'' ''Public'' ring_status_oid_name
             = Reply None"
    by (simp add: get_stack_info_two bulkwalk_stack_network)
  from t [where net = "stack_network [] [] None"] 1
  have a: "main [Host ''10.0.0.1''] (stack_network [] [] None) =
     ([Snmp_bulkwalk ''10.0.0.1'' ''Public'' stack_table_oid_name,
       Stdout ''Cisco Stack CRITICAL - Unable to retrieve SNMP stack table''],
      Inl (SystemExit 2))"
    by simp
  from t [where net = "stack_network two_numbers [] None" and v = "hd two_numbers"
      and vs = "tl two_numbers"] 2
  have b: "main [Host ''10.0.0.1''] (stack_network two_numbers [] None) =
     ([Snmp_bulkwalk ''10.0.0.1'' ''Public'' stack_table_oid_name,
       Snmp_bulkwalk ''10.0.0.1'' ''Public'' stack_status_oid_name,
       Stdout ''Cisco Stack CRITICAL - Unable to retrieve SNMP stack status''],
      Inl (SystemExit 2))"
    by simp
  from t [where net = "stack_network two_numbers two_states None" and stack = two_ready_members
      and ?ev3.0 = "[Snmp_bulkwalk ''10.0.0.1'' ''Public'' stack_table_oid_name,
               Snmp_bulkwalk ''10.0.0.1'' ''Public'' stack_status_oid_name]"] 3
  have c: "main [Host ''10.0.0.1''] (stack_network two_numbers two_states None) =
     ([Snmp_bulkwalk ''10.0.0.1'' ''Public'' stack_table_oid_name,
       Snmp_bulkwalk ''10.0.0.1'' ''Public'' stack_status_oid_name,
       Snmp_get ''10.0.0.1'' ''Public'' ring_status_oid_name,
       Stdout ''Cisco Stack CRITICAL - Unable to retrieve SNMP ring status''],
      Inl (SystemExit 2))"
    by simp
  from a b c show ?thesis by blast
qed

text \<open>
  C6: what the code does on an asymmetric walk. The walk of the numbers returns the
  member 1001 only, the walk of the states returns 1001 and 2001: \<open>get_stack_info\<close>
  raises \<open>KeyError('2001')\<close> at line 273, and \<open>main\<close> ends with that uncaught exception,
  having printed nothing, instead of exiting CRITICAL with a message.
\<close>

theorem asymmetric_walk_raises_KeyError:
  "get_stack_info ''10.0.0.1'' ''Public''
     (stack_network one_number two_states redundant_ring) =
     ([Snmp_bulkwalk ''10.0.0.1'' ''Public'' stack_table_oid_name,
       Snmp_bulkwalk ''10.0.0.1'' ''Public'' stack_status_oid_name],
      Inl (KeyError ''2001''))
   \<and> main [Host ''10.0.0.1''] (stack_network one_number two_states redundant_ring) =
     ([Snmp_bulkwalk ''10.0.0.1'' ''Public'' stack_table_oid_name,
       Snmp_bulkwalk ''10.0.0.1'' ''Public'' stack_status_oid_name],
      Inl (KeyError ''2001''))"
proof -
  have a: "add_status two_states (add_members one_number []) = Inl (KeyError ''2001'')"
    by (simp add: one_number_def two_states_def oid_index_def rsplit_dot_def)
  have g: "get_stack_info h c (stack_network one_number two_states redundant_ring) =
     ([Snmp_bulkwalk h c stack_table_oid_name, Snmp_bulkwalk h c stack_status_oid_name],
      Inl (KeyError ''2001''))" for h c
    by (simp add: get_stack_info_def run_simps bulkwalk_stack_network a)
       (simp add: one_number_def two_states_def)
  show ?thesis
    by (simp add: g main_after_parsing [OF parse_host] and_then_Inl)
qed

text \<open>
  C7: what the code does when no host is given. \<open>main\<close> calls argparse first, which
  reports the missing required option with its own usage text and exits with status 2,
  not 3 (UNKNOWN); no SNMP request is sent. The older \<open>parse_args\<close>, which would print
  "Requires host to check" and the usage and exit UNKNOWN, is never reached.
\<close>

theorem missing_host_exits_2:
  "main [] net =
     ([Argparse_error ''the following arguments are required: -H/--host''], Inl (SystemExit 2))
   \<and> SystemExit 2 \<noteq> SystemExit UNKNOWN
   \<and> parse_args [] =
       ([Stdout ''Requires host to check'', Stdout usage_text], Inl (SystemExit UNKNOWN))"
  by (simp add: main_def parser_parse_args_def parse_args_def usage_def print_def sys_exit_def
      and_then_emit run_simps UNKNOWN_def)

text \<open>
  C8: two member tables with the same entries in different iteration orders get the same
  verdict from \<open>evaluate_results\<close>, for every ring value: either both calls raise, or
  both return, with the same severity.
\<close>

theorem verdict_order_independent:
  assumes "mset stack' = mset stack"
  shows "verdict (evaluate_results stack' ring) = verdict (evaluate_results stack ring)"
proof -
  from assms have "set stack' = set stack" by (rule mset_eq_setD)
  then show ?thesis by (simp add: verdict_evaluate_results)
qed

theorem verdict_order_independent_witness:
  "mset (rev one_provisioned) = mset one_provisioned \<and>
   rev one_provisioned \<noteq> one_provisioned \<and>
   verdict (evaluate_results (rev one_provisioned) ''0'') =
     verdict (evaluate_results one_provisioned ''0'')"
proof -
  have h: "mset (rev one_provisioned) = mset one_provisioned" by simp
  have d: "rev one_provisioned \<noteq> one_provisioned" by (simp add: one_provisioned_def)
  from verdict_order_independent [OF h, of "''0''"] h d show ?thesis by blast
qed

text \<open>
  C9: \<open>evaluate_results\<close> returns whenever every member has the fields it reads, and
  the severity it returns is always one of OK, WARNING and CRITICAL, never UNKNOWN.
\<close>

theorem severity_never_unknown:
  "((\<forall>m \<in> snd ` set stack. readable m) \<longrightarrow>
      (\<exists>result message. evaluate_results stack ring = Inr (result, message))) \<and>
   (\<forall>result message. evaluate_results stack ring = Inr (result, message) \<longrightarrow>
      result \<in> {OK, WARNING, CRITICAL} \<and> result \<noteq> UNKNOWN)"
proof (cases "\<forall>m \<in> snd ` set stack. readable m")
  case True
  then show ?thesis
    by (simp add: evaluate_results_readable OK_def WARNING_def CRITICAL_def UNKNOWN_def)
next
  case False
  from evaluate_members_unreadable [OF this]
  obtain e where "evaluate_members stack ([''Members: ''], OK) = Inl e" by blast
  with False show ?thesis by (simp add: evaluate_results_def)
qed

theorem severity_never_unknown_witness:
  "\<exists>result message. evaluate_results one_provisioned ''0'' = Inr (result, message) \<and>
      result \<in> {OK, WARNING, CRITICAL} \<and> result \<noteq> UNKNOWN"
  using severity_never_unknown [of one_provisioned "''0''"] one_provisioned_readable
  by blast

text \<open>
  C10: on the empty member table the evaluator returns normally: OK with the message
  "Members: Stack Ring is redundant" when the ring is the string "1", and WARNING with
  "Members: Stack Ring is non-redundant" for every other ring value.
\<close>

theorem evaluate_results_empty:
  "evaluate_results [] ''1'' = Inr (OK, ''Members: Stack Ring is redundant'') \<and>
   (ring \<noteq> ''1'' \<longrightarrow>
      evaluate_results [] ring = Inr (WARNING, ''Members: Stack Ring is non-redundant''))"
  by (simp add: evaluate_results_def)

theorem evaluate_results_empty_witness:
  "''0'' \<noteq> ''1'' \<and>
   evaluate_results [] ''0'' = Inr (WARNING, ''Members: Stack Ring is non-redundant'')"
  using evaluate_results_empty [of "''0''"] by simp

end
